theory Spec2Isabelle
  imports Complex_Main
begin

section \<open>Conventions of the embedding\<close>

text \<open>
  The firmware is Python. Angles, confidences, areas and brightness values are Python
  floats; they are embedded as finite reals, so rounding, infinities and NaN are outside
  the model. Dictionaries are maps, a missing key is \<open>None\<close>. An exception is a value
  \<open>Inl e\<close> of a sum type; every \<open>try ... except Exception\<close> of the source is a
  case distinction on that sum. Calls to the logger change neither the state nor a
  returned value and are left out. Calls into RPi.GPIO and OpenCV leave the repository:
  a PWM write with a duty cycle between 0 and 100 is taken to succeed, and what OpenCV
  computes from a frame or a contour, a value or an exception, is an input of the model.
\<close>

datatype error =
    AttributeError
  | KeyError
  | ValueError
  | ZeroDivisionError
  | CvError

section \<open>servo\_controller.py\<close>

subsection \<open>State of a controller object\<close>

datatype controller_class = ServoController | MockServoController

text \<open>
  \<open>servo_pwm\<close> maps an axis name to the pin its PWM object drives. The attributes
  \<open>servo_pins\<close> and \<open>limits\<close> are assigned once, in \<open>ServoController.__init__\<close>,
  and never written again, so they are constants of that class.
  \<open>MockServoController.__init__\<close> does not call the constructor it overrides and
  assigns neither of them: on a mock object reading \<open>self.servo_pins\<close> raises
  \<open>AttributeError\<close>.
\<close>

record servo_controller =
  cls :: controller_class
  initialized :: bool
  current_positions :: "string \<rightharpoonup> real"
  servo_pwm :: "string \<rightharpoonup> nat"

definition servo_pins_items :: "(string \<times> nat) list" where
  "servo_pins_items =
     [(''dish_azimuth'', 18), (''dish_elevation'', 19), (''camera_pan'', 20), (''camera_tilt'', 21)]"

definition servo_pins :: "string \<rightharpoonup> nat" where
  "servo_pins = map_of servo_pins_items"

definition limits :: "string \<rightharpoonup> real \<times> real" where
  "limits = map_of
     [(''dish_azimuth'', (0, 180)), (''dish_elevation'', (0, 90)),
      (''camera_pan'', (0, 180)), (''camera_tilt'', (30, 150))]"

definition initial_positions :: "(string \<times> real) list" where
  "initial_positions =
     [(''dish_azimuth'', 90), (''dish_elevation'', 45), (''camera_pan'', 90), (''camera_tilt'', 90)]"

definition ServoController_init :: servo_controller where
  "ServoController_init =
     \<lparr>cls = ServoController, initialized = False,
      current_positions = map_of initial_positions, servo_pwm = Map.empty\<rparr>"

definition MockServoController_init :: servo_controller where
  "MockServoController_init =
     \<lparr>cls = MockServoController, initialized = False,
      current_positions = map_of initial_positions, servo_pwm = Map.empty\<rparr>"

definition self_servo_pins :: "servo_controller \<Rightarrow> error + (string \<rightharpoonup> nat)" where
  "self_servo_pins s =
     (case cls s of ServoController \<Rightarrow> Inr servo_pins | MockServoController \<Rightarrow> Inl AttributeError)"

subsection \<open>Moving one axis\<close>

text \<open>
  \<open>_move_servo_to_position\<close>. The real class returns at once unless the controller is
  initialised and GPIO is available; otherwise it clamps, writes the duty cycle and stores
  the clamped angle. A \<open>KeyError\<close> from \<open>self.limits[servo_name]\<close> or
  \<open>self.servo_pwm[servo_name]\<close> is caught inside the method, before the store. The mock
  class overrides the method and stores the angle it is given.
\<close>

definition duty_cycle :: "real \<Rightarrow> real" where
  "duty_cycle angle = 2.5 + (angle / 180.0) * 10.0"

definition move_servo_to_position ::
  "bool \<Rightarrow> servo_controller \<Rightarrow> string \<Rightarrow> real \<Rightarrow> servo_controller" where
  "move_servo_to_position gpio_available s servo_name angle =
     (case cls s of
        MockServoController \<Rightarrow>
          s\<lparr>current_positions := (current_positions s)(servo_name \<mapsto> angle)\<rparr>
      | ServoController \<Rightarrow>
          if \<not> initialized s \<or> \<not> gpio_available then s
          else (case limits servo_name of
                  None \<Rightarrow> s
                | Some (min_angle, max_angle) \<Rightarrow>
                    let angle' = max min_angle (min max_angle angle) in
                    (case servo_pwm s servo_name of
                       None \<Rightarrow> s
                     | Some pwm \<Rightarrow>
                         if 0 \<le> duty_cycle angle' \<and> duty_cycle angle' \<le> 100
                         then s\<lparr>current_positions := (current_positions s)(servo_name \<mapsto> angle')\<rparr>
                         else s)))"

text \<open>Python's \<open>int(x)\<close> on a float truncates towards zero; \<open>range(n)\<close> is empty for \<open>n \<le> 0\<close>.\<close>

definition py_int :: "real \<Rightarrow> int" where
  "py_int x = (if 0 \<le> x then \<lfloor>x\<rfloor> else \<lceil>x\<rceil>)"

definition py_range :: "int \<Rightarrow> nat list" where
  "py_range n = [0..<nat n]"

text \<open>
  \<open>_smooth_move\<close>. \<open>current_angle\<close> is read once, before the loop; the loop body moves
  to \<open>current_angle + direction * step_size * (i + 1)\<close>; the last statement moves to the
  target. Both raises of the method (\<open>KeyError\<close>, \<open>ZeroDivisionError\<close>) come before
  the first store, so an error leaves the state as it was.
\<close>

definition smooth_move ::
  "bool \<Rightarrow> servo_controller \<Rightarrow> string \<Rightarrow> real \<Rightarrow> real \<Rightarrow> error + servo_controller" where
  "smooth_move gpio_available s servo_name target_angle step_size =
     (case current_positions s servo_name of
        None \<Rightarrow> Inl KeyError
      | Some current_angle \<Rightarrow>
          let direction = (if target_angle > current_angle then 1 else - 1) in
          if step_size = 0 then Inl ZeroDivisionError
          else
            let steps = \<bar>target_angle - current_angle\<bar> / step_size;
                s' = fold (\<lambda>i st. move_servo_to_position gpio_available st servo_name
                                      (current_angle + direction * step_size * (real i + 1)))
                          (py_range (py_int steps)) s
            in Inr (move_servo_to_position gpio_available s' servo_name target_angle))"

text \<open>
  \<open>move_servo\<close>. The membership test on \<open>self.servo_pins\<close> stands before the \<open>try\<close>, so
  the \<open>AttributeError\<close> of a mock object leaves the method; everything raised under the
  lock is caught and answered with \<open>False\<close>.
\<close>

definition move_servo ::
  "bool \<Rightarrow> servo_controller \<Rightarrow> string \<Rightarrow> real \<Rightarrow> bool \<Rightarrow> error + (bool \<times> servo_controller)" where
  "move_servo gpio_available s servo_name angle smooth =
     (case self_servo_pins s of
        Inl e \<Rightarrow> Inl e
      | Inr pins \<Rightarrow>
          if pins servo_name = None then Inr (False, s)
          else if smooth then
            (case smooth_move gpio_available s servo_name angle 2.0 of
               Inl e \<Rightarrow> Inr (False, s)
             | Inr s' \<Rightarrow> Inr (True, s'))
          else Inr (True, move_servo_to_position gpio_available s servo_name angle))"

subsection \<open>Moving a pair of axes\<close>

text \<open>Python's \<open>%\<close> on floats takes the sign of the divisor.\<close>

definition py_fmod :: "real \<Rightarrow> real \<Rightarrow> real" where
  "py_fmod a b = a - b * of_int \<lfloor>a / b\<rfloor>"

definition servo_azimuth :: "real \<Rightarrow> real" where
  "servo_azimuth azimuth = py_fmod azimuth 360 * 180 / 360"

definition move_dish_to_coordinates ::
  "bool \<Rightarrow> servo_controller \<Rightarrow> real \<Rightarrow> real \<Rightarrow> bool \<times> servo_controller" where
  "move_dish_to_coordinates gpio_available s azimuth elevation =
     (case move_servo gpio_available s ''dish_azimuth'' (servo_azimuth azimuth) True of
        Inl e \<Rightarrow> (False, s)
      | Inr (success_az, s1) \<Rightarrow>
          (case move_servo gpio_available s1 ''dish_elevation'' elevation True of
             Inl e \<Rightarrow> (False, s1)
           | Inr (success_el, s2) \<Rightarrow> (success_az \<and> success_el, s2)))"

definition move_camera_to_coordinates ::
  "bool \<Rightarrow> servo_controller \<Rightarrow> real \<Rightarrow> real \<Rightarrow> bool \<times> servo_controller" where
  "move_camera_to_coordinates gpio_available s pan tilt =
     (case move_servo gpio_available s ''camera_pan'' pan True of
        Inl e \<Rightarrow> (False, s)
      | Inr (success_pan, s1) \<Rightarrow>
          (case move_servo gpio_available s1 ''camera_tilt'' tilt True of
             Inl e \<Rightarrow> (False, s1)
           | Inr (success_tilt, s2) \<Rightarrow> (success_pan \<and> success_tilt, s2)))"

subsection \<open>Tracking\<close>

text \<open>
  A detection handed to \<open>track_objects\<close> is a dictionary; the method reads the keys
  \<open>confidence\<close> (with \<open>get\<close> and the default 0) and \<open>coordinates\<close> (with a subscript,
  which raises \<open>KeyError\<close> when the key is missing).
\<close>

record detection =
  confidence :: "real option"
  coordinates :: "(real \<times> real) option"

definition get_confidence :: "detection \<Rightarrow> real" where
  "get_confidence x = (case confidence x of None \<Rightarrow> 0 | Some c \<Rightarrow> c)"

text \<open>
  Python's \<open>max(xs, key=f)\<close> keeps the first item and replaces it only by an item whose
  key is strictly greater; on an empty list it raises \<open>ValueError\<close>.
\<close>

fun py_max_from :: "('a \<Rightarrow> real) \<Rightarrow> 'a \<Rightarrow> 'a list \<Rightarrow> 'a" where
  "py_max_from key best [] = best"
| "py_max_from key best (x # xs) = py_max_from key (if key x > key best then x else best) xs"

definition py_max :: "('a \<Rightarrow> real) \<Rightarrow> 'a list \<Rightarrow> error + 'a" where
  "py_max key xs = (case xs of [] \<Rightarrow> Inl ValueError | x # rest \<Rightarrow> Inr (py_max_from key x rest))"

definition track_objects :: "bool \<Rightarrow> servo_controller \<Rightarrow> detection list \<Rightarrow> servo_controller" where
  "track_objects gpio_available s detections =
     (if detections = [] then s
      else (case py_max get_confidence detections of
              Inl e \<Rightarrow> s
            | Inr primary_detection \<Rightarrow>
                (case coordinates primary_detection of
                   None \<Rightarrow> s
                 | Some (x, y) \<Rightarrow>
                     let pan_angle = x * 180;
                         tilt_angle = 30 + (y * 120);
                         s1 = snd (move_camera_to_coordinates gpio_available s pan_angle tilt_angle)
                     in if get_confidence primary_detection > 0.8 then
                          let dish_azimuth = pan_angle * 2;
                              dish_elevation = min 90 (tilt_angle - 30)
                          in snd (move_dish_to_coordinates gpio_available s1 dish_azimuth dish_elevation)
                        else s1)))"

subsection \<open>Initialisation\<close>

text \<open>
  \<open>initialize\<close>. Without GPIO the real class only sets the flag. With GPIO it creates a
  PWM object per pin and calls \<open>_move_servo_to_position\<close> with the stored angle; a
  missing stored angle raises \<open>KeyError\<close>, which the method answers with \<open>False\<close>,
  keeping the PWM objects created so far. The flag is set after the loop.
\<close>

fun initialize_loop ::
  "bool \<Rightarrow> servo_controller \<Rightarrow> (string \<times> nat) list \<Rightarrow> error option \<times> servo_controller" where
  "initialize_loop gpio_available s [] = (None, s)"
| "initialize_loop gpio_available s ((servo_name, pin) # rest) =
     (let s1 = s\<lparr>servo_pwm := (servo_pwm s)(servo_name \<mapsto> pin)\<rparr> in
      case current_positions s1 servo_name of
        None \<Rightarrow> (Some KeyError, s1)
      | Some angle \<Rightarrow>
          initialize_loop gpio_available
            (move_servo_to_position gpio_available s1 servo_name angle) rest)"

definition initialize :: "bool \<Rightarrow> servo_controller \<Rightarrow> bool \<times> servo_controller" where
  "initialize gpio_available s =
     (case cls s of
        MockServoController \<Rightarrow> (True, s\<lparr>initialized := True\<rparr>)
      | ServoController \<Rightarrow>
          if \<not> gpio_available then (True, s\<lparr>initialized := True\<rparr>)
          else (case initialize_loop gpio_available s servo_pins_items of
                  (Some e, s') \<Rightarrow> (False, s')
                | (None, s') \<Rightarrow> (True, s'\<lparr>initialized := True\<rparr>)))"

section \<open>detection\_ai.py\<close>

subsection \<open>State of a detector object\<close>

text \<open>
  The background subtractor is an OpenCV object; what it makes of a frame enters the model
  through \<open>find_contours\<close> below, so the record keeps the two Python attributes only.
\<close>

record asteroid_detector =
  model_loaded :: bool
  detection_threshold :: real

definition AsteroidDetector_init :: asteroid_detector where
  "AsteroidDetector_init = \<lparr>model_loaded = False, detection_threshold = 0.5\<rparr>"

definition load_model :: "asteroid_detector \<Rightarrow> asteroid_detector" where
  "load_model d = d\<lparr>model_loaded := True\<rparr>"

text \<open>
  \<open>set_detection_threshold\<close> has no \<open>raise\<close> and no \<open>return\<close>: outside the interval it
  logs a warning and falls off the end. The result is typed as a sum so that the absence
  of an error is a statement about the method.
\<close>

definition set_detection_threshold :: "real \<Rightarrow> asteroid_detector \<Rightarrow> error + asteroid_detector" where
  "set_detection_threshold threshold d =
     (if 0.0 \<le> threshold \<and> threshold \<le> 1.0
      then Inr (d\<lparr>detection_threshold := threshold\<rparr>)
      else Inr d)"

subsection \<open>What OpenCV contributes\<close>

text \<open>
  A frame after preprocessing is a grey image, a list of rows of pixel intensities.
  \<open>preprocess\<close> stands for \<open>cvtColor\<close>, \<open>GaussianBlur\<close> and \<open>equalizeHist\<close>;
  \<open>find_contours\<close> for the background subtraction, the morphological opening and
  \<open>findContours\<close>. \<open>contourArea\<close> and \<open>boundingRect\<close> are OpenCV's functions of
  a contour. Each of the four may raise (\<open>cv2.error\<close>).
\<close>

type_synonym image = "nat list list"

record ('f, 'c) opencv =
  preprocess :: "'f \<Rightarrow> error + image"
  find_contours :: "image \<Rightarrow> error + 'c list"
  contourArea :: "'c \<Rightarrow> error + real"
  boundingRect :: "'c \<Rightarrow> error + nat \<times> nat \<times> nat \<times> nat"

subsection \<open>Detection of moving objects\<close>

record 'c moving_object =
  contour :: 'c
  bbox :: "nat \<times> nat \<times> nat \<times> nat"
  area :: real
  aspect_ratio :: real
  center :: "nat \<times> nat"

text \<open>
  \<open>detect_moving_objects\<close>. The \<open>try\<close> encloses the OpenCV calls and the whole
  \<open>for\<close> loop; the \<open>except\<close> clause stands after the loop and the method then
  returns \<open>objects\<close>, the list the loop appends to. So an exception raised for one
  contour ends the loop: the objects appended before it are returned, the contours after
  it are not looked at.
\<close>

fun detect_loop ::
  "('f, 'c) opencv \<Rightarrow> 'c list \<Rightarrow> 'c moving_object list \<Rightarrow> 'c moving_object list" where
  "detect_loop cv [] objects = objects"
| "detect_loop cv (c # rest) objects =
     (case contourArea cv c of
        Inl e \<Rightarrow> objects
      | Inr a \<Rightarrow>
          if 50 < a \<and> a < 5000 then
            (case boundingRect cv c of
               Inl e \<Rightarrow> objects
             | Inr (x, y, w, h) \<Rightarrow>
                 detect_loop cv rest
                   (objects @
                    [\<lparr>contour = c, bbox = (x, y, w, h), area = a,
                      aspect_ratio = (if h > 0 then real w / real h else 0),
                      center = (x + w div 2, y + h div 2)\<rparr>]))
          else detect_loop cv rest objects)"

definition detect_moving_objects :: "('f, 'c) opencv \<Rightarrow> image \<Rightarrow> 'c moving_object list" where
  "detect_moving_objects cv frame =
     (case find_contours cv frame of
        Inl e \<Rightarrow> []
      | Inr contours \<Rightarrow> detect_loop cv contours [])"

subsection \<open>Classification\<close>

text \<open>\<open>frame[y:y+h, x:x+w]\<close> and \<open>np.mean(roi) if roi.size > 0 else 0\<close>.\<close>

definition roi_of :: "image \<Rightarrow> nat \<times> nat \<times> nat \<times> nat \<Rightarrow> image" where
  "roi_of frame b = (case b of (x, y, w, h) \<Rightarrow> map (\<lambda>row. take w (drop x row)) (take h (drop y frame)))"

definition roi_size :: "image \<Rightarrow> nat" where
  "roi_size roi = length (concat roi)"

definition roi_mean :: "image \<Rightarrow> real" where
  "roi_mean roi = (if roi_size roi > 0 then real (sum_list (concat roi)) / real (roi_size roi) else 0)"

definition heuristic_classification :: "'c moving_object \<Rightarrow> image \<Rightarrow> string \<times> real" where
  "heuristic_classification obj roi =
     (let a = area obj;
          r = aspect_ratio obj;
          brightness = roi_mean roi
      in if brightness > 200 \<and> a > 100 then
           (if r > 2.0 then (''meteor'', 0.8)
            else if a > 500 then (''asteroid'', 0.7)
            else (''meteor'', 0.6))
         else if brightness > 150 then (''meteor'', 0.5)
         else (''non_meteor'', 0.9))"

text \<open>
  The dictionary \<open>classify_object\<close> returns. The branch of the \<open>except\<close> clause leaves
  the key \<open>properties\<close> out.
\<close>

record classification =
  c_type :: string
  c_confidence :: real
  c_coordinates :: "nat \<times> nat"
  c_bbox :: "nat \<times> nat \<times> nat \<times> nat"
  c_area :: real
  c_properties :: "(real \<times> real) option"

text \<open>
  \<open>classify_object\<close> calls \<open>self.heuristic_classification\<close>, a method looked up on the
  object when the call is made. The embedding takes the scoring call as the parameter
  \<open>scorer\<close>, which may raise, so that the \<open>except\<close> clause of \<open>classify_object\<close> is a
  branch of the model; \<open>default_scorer\<close> is the method the repository ships.
\<close>

type_synonym 'c scorer = "'c moving_object \<Rightarrow> image \<Rightarrow> error + string \<times> real"

definition default_scorer :: "'c scorer" where
  "default_scorer obj roi = Inr (heuristic_classification obj roi)"

definition classify_object :: "'c scorer \<Rightarrow> 'c moving_object \<Rightarrow> image \<Rightarrow> classification" where
  "classify_object scorer obj frame =
     (let roi = roi_of frame (bbox obj) in
      case scorer obj roi of
        Inr (t, c) \<Rightarrow>
          \<lparr>c_type = t, c_confidence = c, c_coordinates = center obj, c_bbox = bbox obj,
           c_area = area obj, c_properties = Some (aspect_ratio obj, roi_mean roi)\<rparr>
      | Inl e \<Rightarrow>
          \<lparr>c_type = ''non_meteor'', c_confidence = 0.0, c_coordinates = center obj,
           c_bbox = bbox obj, c_area = area obj, c_properties = None\<rparr>)"

subsection \<open>One pass over a frame\<close>

fun analyze_loop ::
  "'c scorer \<Rightarrow> asteroid_detector \<Rightarrow> image \<Rightarrow> 'c moving_object list \<Rightarrow>
   classification list \<Rightarrow> classification list" where
  "analyze_loop scorer d frame [] detections = detections"
| "analyze_loop scorer d frame (obj # rest) detections =
     (let cl = classify_object scorer obj frame in
      if c_confidence cl > detection_threshold d
      then analyze_loop scorer d frame rest (detections @ [cl])
      else analyze_loop scorer d frame rest detections)"

text \<open>
  \<open>analyze_frame\<close>: the body of the \<open>try\<close> is \<open>analyze_frame_body\<close>; the \<open>except\<close>
  clause answers every exception with the empty list.
\<close>

definition analyze_frame_body ::
  "'c scorer \<Rightarrow> ('f, 'c) opencv \<Rightarrow> asteroid_detector \<Rightarrow> 'f \<Rightarrow> error + classification list" where
  "analyze_frame_body scorer cv d frame =
     (case preprocess cv frame of
        Inl e \<Rightarrow> Inl e
      | Inr processed_frame \<Rightarrow>
          Inr (analyze_loop scorer d processed_frame
                 (detect_moving_objects cv processed_frame) []))"

definition analyze_frame ::
  "'c scorer \<Rightarrow> ('f, 'c) opencv \<Rightarrow> asteroid_detector \<Rightarrow> 'f \<Rightarrow> error + classification list" where
  "analyze_frame scorer cv d frame =
     (if \<not> model_loaded d then Inr []
      else (case analyze_frame_body scorer cv d frame of
              Inl e \<Rightarrow> Inr []
            | Inr detections \<Rightarrow> Inr detections))"

section \<open>Notions used in the statements\<close>

definition axis_names :: "string list" where
  "axis_names = [''dish_azimuth'', ''dish_elevation'', ''camera_pan'', ''camera_tilt'']"

text \<open>The angle the real class stores for a requested one: the clamp of \<open>_move_servo_to_position\<close>.\<close>

definition clamp_to :: "string \<Rightarrow> real \<Rightarrow> real" where
  "clamp_to n a = (case limits n of None \<Rightarrow> a | Some (lo, hi) \<Rightarrow> max lo (min hi a))"

text \<open>Whether a call of the real \<open>_move_servo_to_position\<close> reaches its store.\<close>

definition can_store :: "bool \<Rightarrow> servo_controller \<Rightarrow> string \<Rightarrow> bool" where
  "can_store g s n \<longleftrightarrow> initialized s \<and> g \<and> limits n \<noteq> None \<and> servo_pwm s n \<noteq> None"

text \<open>
  A controller of the real class after a successful \<open>initialize\<close> on a machine with GPIO:
  the only states in which the real class moves anything.
\<close>

definition ready :: "bool \<Rightarrow> servo_controller \<Rightarrow> bool" where
  "ready g s \<longleftrightarrow>
     g \<and> cls s = ServoController \<and> initialized s \<and>
     list_all (\<lambda>n. servo_pwm s n \<noteq> None \<and> current_positions s n \<noteq> None) axis_names"

definition within_limits :: "servo_controller \<Rightarrow> bool" where
  "within_limits s \<longleftrightarrow>
     list_all (\<lambda>n. case current_positions s n of
                      None \<Rightarrow> False
                    | Some a \<Rightarrow> (case limits n of None \<Rightarrow> False | Some (lo, hi) \<Rightarrow> lo \<le> a \<and> a \<le> hi))
              axis_names"

text \<open>
  An initialised controller with GPIO whose dish has been moved away from its home
  angles, so that a later move of the dish shows.
\<close>

definition dish_parked :: servo_controller where
  "dish_parked =
     move_servo_to_position True
       (move_servo_to_position True (snd (initialize True ServoController_init)) ''dish_azimuth'' 10)
       ''dish_elevation'' 20"

definition threshold_valid :: "asteroid_detector \<Rightarrow> bool" where
  "threshold_valid d \<longleftrightarrow> 0 \<le> detection_threshold d \<and> detection_threshold d \<le> 1"


text \<open>
  Inputs for concrete runs of the detector: an OpenCV stand-in whose contours are pairs of
  an area and a bounding rectangle and whose preprocessing returns the frame; the same
  with a \<open>contourArea\<close> that raises on the contours of one given area; and a scoring
  method that raises on the contours of one given area.
\<close>

definition synthetic_opencv ::
  "(real \<times> nat \<times> nat \<times> nat \<times> nat) list \<Rightarrow> (image, real \<times> nat \<times> nat \<times> nat \<times> nat) opencv" where
  "synthetic_opencv contours =
     \<lparr>preprocess = Inr, find_contours = (\<lambda>img. Inr contours),
      contourArea = (\<lambda>c. Inr (fst c)), boundingRect = (\<lambda>c. Inr (snd c))\<rparr>"



section \<open>Properties of the actuator positioner\<close>

subsection \<open>One call of \<open>_move_servo_to_position\<close>\<close>

lemma limits_cases:
  "limits n = Some (lo, hi) \<Longrightarrow> (lo, hi) \<in> {(0, 180), (0, 90), (30, 150)}"
  by (auto simp: limits_def split: if_splits)

lemma duty_cycle_range:
  "0 \<le> m \<Longrightarrow> m \<le> 180 \<Longrightarrow> 0 \<le> duty_cycle m \<and> duty_cycle m \<le> 100"
  by (simp add: duty_cycle_def)

lemma duty_ok:
  assumes "limits n = Some (lo, hi)"
  shows "0 \<le> duty_cycle (max lo (min hi a)) \<and> duty_cycle (max lo (min hi a)) \<le> 100"
proof -
  have "0 \<le> lo \<and> lo \<le> hi \<and> hi \<le> 180" using limits_cases[OF assms] by auto
  then have "0 \<le> max lo (min hi a)" and "max lo (min hi a) \<le> 180" by auto
  then show ?thesis by (rule duty_cycle_range)
qed

lemma move_real_noop:
  "cls s = ServoController \<Longrightarrow> \<not> can_store g s n \<Longrightarrow> move_servo_to_position g s n a = s"
  by (auto simp: move_servo_to_position_def can_store_def split: option.splits)

lemma move_real_store:
  "cls s = ServoController \<Longrightarrow> can_store g s n \<Longrightarrow>
   move_servo_to_position g s n a =
     s\<lparr>current_positions := (current_positions s)(n \<mapsto> clamp_to n a)\<rparr>"
  using duty_ok[of n]
  by (auto simp: move_servo_to_position_def can_store_def clamp_to_def Let_def split: option.splits)

lemma move_keeps_positions:
  "current_positions s n \<noteq> None \<Longrightarrow>
   current_positions (move_servo_to_position g s m a) n \<noteq> None"
  by (auto simp: move_servo_to_position_def Let_def split: controller_class.splits option.splits)

lemma constructed_positions:
  "n \<in> set axis_names \<Longrightarrow> current_positions ServoController_init n \<noteq> None"
  "n \<in> set axis_names \<Longrightarrow> current_positions MockServoController_init n \<noteq> None"
  by (auto simp: axis_names_def ServoController_init_def MockServoController_init_def initial_positions_def)

subsection \<open>The stepping loop\<close>

lemma fold_real_noop:
  "cls s = ServoController \<Longrightarrow> \<not> can_store g s n \<Longrightarrow>
   fold (\<lambda>i st. move_servo_to_position g st n (f i)) xs s = s"
  by (induction xs) (simp_all add: move_real_noop)

lemma fold_real_store:
  "cls s = ServoController \<Longrightarrow> can_store g s n \<Longrightarrow>
   fold (\<lambda>i st. move_servo_to_position g st n (f i)) xs s =
     (if xs = [] then s
      else s\<lparr>current_positions := (current_positions s)(n \<mapsto> clamp_to n (f (last xs)))\<rparr>)"
proof (induction xs arbitrary: s)
  case Nil
  then show ?case by simp
next
  case (Cons x xs)
  let ?s1 = "s\<lparr>current_positions := (current_positions s)(n \<mapsto> clamp_to n (f x))\<rparr>"
  have a: "cls ?s1 = ServoController" using Cons.prems by simp
  have b: "can_store g ?s1 n" using Cons.prems by (simp add: can_store_def)
  show ?case using Cons.IH[OF a b] Cons.prems by (simp add: move_real_store)
qed

lemma smooth_real:
  assumes "cls s = ServoController" and "current_positions s n \<noteq> None"
  shows "smooth_move g s n t 2 = Inr (move_servo_to_position g s n t)"
proof (cases "can_store g s n")
  case False
  then show ?thesis using assms
    by (auto simp: smooth_move_def Let_def fold_real_noop move_real_noop)
next
  case True
  then show ?thesis using assms
    by (auto simp: smooth_move_def Let_def fold_real_store move_real_store can_store_def)
qed

lemma initialize_gpio:
  "snd (initialize True ServoController_init) =
     \<lparr>cls = ServoController, initialized = True,
      current_positions = map_of initial_positions,
      servo_pwm = [''dish_azimuth'' \<mapsto> 18, ''dish_elevation'' \<mapsto> 19,
                   ''camera_pan'' \<mapsto> 20, ''camera_tilt'' \<mapsto> 21]\<rparr>"
  by (simp add: initialize_def ServoController_init_def servo_pins_items_def
      move_servo_to_position_def initial_positions_def)

subsection \<open>Claims\<close>

text \<open>
  C8. \<open>track_objects\<close> called with an empty list of detections returns at once: the
  controller, and with it the stored position of every axis, is what it was. This holds
  for both classes, initialised or not, with or without GPIO.
\<close>

theorem track_objects_empty_noop:
  "track_objects gpio_available s [] = s"
  by (simp add: track_objects_def)

text \<open>
  C5. On a controller of class \<open>ServoController\<close>, \<open>move_servo\<close> with a name that is
  none of the four axis names returns \<open>False\<close> (a result, not an exception) and leaves
  the controller, hence every stored position, unchanged; smooth or not.
\<close>

theorem move_servo_unknown_axis:
  assumes "cls s = ServoController"
    and "servo_name \<notin> {''dish_azimuth'', ''dish_elevation'', ''camera_pan'', ''camera_tilt''}"
  shows "move_servo gpio_available s servo_name angle smooth = Inr (False, s)"
  using assms by (simp add: move_servo_def self_servo_pins_def servo_pins_def servo_pins_items_def)

theorem move_servo_unknown_axis_witness:
  "cls ServoController_init = ServoController \<and>
   ''antenna'' \<notin> {''dish_azimuth'', ''dish_elevation'', ''camera_pan'', ''camera_tilt''} \<and>
   move_servo True ServoController_init ''antenna'' 45 True = Inr (False, ServoController_init)"
proof -
  have c: "cls ServoController_init = ServoController"
    by (simp add: ServoController_init_def)
  have n: "''antenna'' \<notin> {''dish_azimuth'', ''dish_elevation'', ''camera_pan'', ''camera_tilt''}"
    by simp
  show ?thesis using c n move_servo_unknown_axis [OF c n, of True 45 True] by simp
qed

text \<open>
  C10. For an axis whose position is stored (every one of the four axes, in every state a
  controller reaches), \<open>move_servo\<close> with \<open>smooth=True\<close> and with \<open>smooth=False\<close>
  return the same flag and the same controller. The stepping loop is a \<open>for\<close> over
  \<open>range(int(steps))\<close>, a finite list in the model, so it ends; its stores are
  overwritten by the final call, which is the call of the direct path.
\<close>

theorem smooth_move_equals_direct_move:
  assumes "current_positions s servo_name \<noteq> None"
  shows "move_servo gpio_available s servo_name target True =
         move_servo gpio_available s servo_name target False"
proof (cases "cls s")
  case ServoController
  then show ?thesis using assms smooth_real[of s servo_name gpio_available target]
    by (auto simp: move_servo_def self_servo_pins_def)
next
  case MockServoController
  then show ?thesis by (simp add: move_servo_def self_servo_pins_def)
qed

theorem smooth_move_equals_direct_move_witness:
  "current_positions (snd (initialize True ServoController_init)) ''camera_pan'' \<noteq> None \<and>
   move_servo True (snd (initialize True ServoController_init)) ''camera_pan'' 200 True =
   move_servo True (snd (initialize True ServoController_init)) ''camera_pan'' 200 False \<and>
   (case move_servo True (snd (initialize True ServoController_init)) ''camera_pan'' 200 False of
      Inl e \<Rightarrow> False
    | Inr (ok, s') \<Rightarrow> ok \<and> current_positions s' ''camera_pan'' = Some 180)"
proof -
  let ?s = "snd (initialize True ServoController_init)"
  have p: "current_positions ?s ''camera_pan'' \<noteq> None"
    by (simp add: initialize_gpio initial_positions_def)
  have d: "(case move_servo True ?s ''camera_pan'' 200 False of
              Inl e \<Rightarrow> False
            | Inr (ok, s') \<Rightarrow> ok \<and> current_positions s' ''camera_pan'' = Some 180)"
    by (simp add: initialize_gpio move_servo_def self_servo_pins_def servo_pins_def
        servo_pins_items_def move_servo_to_position_def limits_def duty_cycle_def)
  show ?thesis using p d smooth_move_equals_direct_move [OF p, of True 200] by simp
qed

subsection \<open>Python's \<open>max\<close> with a key\<close>

lemma py_max_from_keep:
  "\<forall>d\<in>set xs. key d \<le> key b \<Longrightarrow> py_max_from key b xs = b"
  by (induction xs) auto

lemma py_max_from_first:
  "key b < key p \<Longrightarrow> \<forall>d\<in>set pre. key d < key p \<Longrightarrow> \<forall>d\<in>set post. key d \<le> key p \<Longrightarrow>
   py_max_from key b (pre @ p # post) = p"
proof (induction pre arbitrary: b)
  case Nil
  then show ?case by (simp add: py_max_from_keep)
next
  case (Cons x pre)
  then show ?case by simp
qed

lemma py_max_first:
  assumes "\<forall>d\<in>set pre. key d < key p" and "\<forall>d\<in>set post. key d \<le> key p"
  shows "py_max key (pre @ p # post) = Inr p"
proof (cases pre)
  case Nil
  then show ?thesis using assms by (simp add: py_max_def py_max_from_keep)
next
  case (Cons b pre')
  then show ?thesis using assms by (simp add: py_max_def py_max_from_first)
qed

lemma first_max_exists:
  "xs \<noteq> [] \<Longrightarrow> \<exists>pre p post. xs = pre @ p # post \<and>
     (\<forall>d\<in>set pre. key d < key p) \<and> (\<forall>d\<in>set post. (key d :: real) \<le> key p)"
proof (induction xs rule: rev_induct)
  case Nil
  then show ?case by simp
next
  case (snoc x xs)
  show ?case
  proof (cases "xs = []")
    case True
    then have "[x] = [] @ x # []" by simp
    then show ?thesis using True by fastforce
  next
    case False
    then obtain pre p post where d: "xs = pre @ p # post"
      and a: "\<forall>d\<in>set pre. key d < key p" and b: "\<forall>d\<in>set post. key d \<le> key p"
      using snoc.IH by blast
    show ?thesis
    proof (cases "key x \<le> key p")
      case True
      have "xs @ [x] = pre @ p # (post @ [x])" using d by simp
      moreover have "\<forall>d\<in>set (post @ [x]). key d \<le> key p" using b True by auto
      ultimately show ?thesis using a by blast
    next
      case False
      have "xs @ [x] = xs @ x # []" by simp
      moreover have "\<forall>d\<in>set xs. key d < key x" using d a b False by force
      ultimately show ?thesis by (metis empty_iff list.set(1))
    qed
  qed
qed

subsection \<open>Moves of an initialised controller with GPIO\<close>

lemma axis_limits:
  "n \<in> set axis_names \<Longrightarrow> limits n \<noteq> None"
  by (auto simp: axis_names_def limits_def)

lemma axis_pins:
  "n \<in> set axis_names \<Longrightarrow> servo_pins n \<noteq> None"
  by (auto simp: axis_names_def servo_pins_def servo_pins_items_def)

lemma ready_can_store:
  "ready g s \<Longrightarrow> n \<in> set axis_names \<Longrightarrow> can_store g s n \<and> current_positions s n \<noteq> None"
  by (auto simp: ready_def can_store_def list_all_iff axis_limits)

lemma ready_update:
  "ready g s \<Longrightarrow> ready g (s\<lparr>current_positions := (current_positions s)(n \<mapsto> v)\<rparr>)"
  by (auto simp: ready_def list_all_iff)

lemma move_servo_ready:
  assumes "ready g s" and "n \<in> set axis_names"
  shows "move_servo g s n a sm =
         Inr (True, s\<lparr>current_positions := (current_positions s)(n \<mapsto> clamp_to n a)\<rparr>)"
proof -
  have c: "cls s = ServoController" using assms by (simp add: ready_def)
  have st: "can_store g s n" and p: "current_positions s n \<noteq> None"
    using ready_can_store[OF assms] by auto
  show ?thesis using axis_pins[OF assms(2)]
    by (auto simp: move_servo_def self_servo_pins_def c smooth_real[OF c p] move_real_store[OF c st])
qed

lemma move_camera_ready:
  assumes "ready g s"
  shows "move_camera_to_coordinates g s pan tilt =
     (True, s\<lparr>current_positions := (current_positions s)
        (''camera_pan'' \<mapsto> clamp_to ''camera_pan'' pan,
         ''camera_tilt'' \<mapsto> clamp_to ''camera_tilt'' tilt)\<rparr>)"
proof -
  have a: "''camera_pan'' \<in> set axis_names" "''camera_tilt'' \<in> set axis_names"
    by (simp_all add: axis_names_def)
  show ?thesis
    by (simp add: move_camera_to_coordinates_def move_servo_ready[OF assms a(1)]
        move_servo_ready[OF ready_update[OF assms] a(2)])
qed

lemma move_dish_ready:
  assumes "ready g s"
  shows "move_dish_to_coordinates g s az el =
     (True, s\<lparr>current_positions := (current_positions s)
        (''dish_azimuth'' \<mapsto> clamp_to ''dish_azimuth'' (servo_azimuth az),
         ''dish_elevation'' \<mapsto> clamp_to ''dish_elevation'' el)\<rparr>)"
proof -
  have a: "''dish_azimuth'' \<in> set axis_names" "''dish_elevation'' \<in> set axis_names"
    by (simp_all add: axis_names_def)
  show ?thesis
    by (simp add: move_dish_to_coordinates_def move_servo_ready[OF assms a(1)]
        move_servo_ready[OF ready_update[OF assms] a(2)])
qed

lemma track_ready:
  assumes "ready g s" and "py_max get_confidence ds = Inr p" and "coordinates p = Some (x, y)"
  shows "track_objects g s ds =
     (if get_confidence p > 0.8 then
        s\<lparr>current_positions := (current_positions s)
          (''camera_pan'' \<mapsto> clamp_to ''camera_pan'' (x * 180),
           ''camera_tilt'' \<mapsto> clamp_to ''camera_tilt'' (30 + y * 120),
           ''dish_azimuth'' \<mapsto> clamp_to ''dish_azimuth'' (servo_azimuth (x * 180 * 2)),
           ''dish_elevation'' \<mapsto> clamp_to ''dish_elevation'' (min 90 (30 + y * 120 - 30)))\<rparr>
      else
        s\<lparr>current_positions := (current_positions s)
          (''camera_pan'' \<mapsto> clamp_to ''camera_pan'' (x * 180),
           ''camera_tilt'' \<mapsto> clamp_to ''camera_tilt'' (30 + y * 120))\<rparr>)"
proof -
  have ne: "ds \<noteq> []" using assms(2) by (auto simp: py_max_def)
  let ?s1 = "s\<lparr>current_positions := (current_positions s)
          (''camera_pan'' \<mapsto> clamp_to ''camera_pan'' (x * 180),
           ''camera_tilt'' \<mapsto> clamp_to ''camera_tilt'' (30 + y * 120))\<rparr>"
  have r1: "ready g ?s1" using ready_update[OF ready_update[OF assms(1)]] by simp
  show ?thesis
    using ne assms(2,3)
    by (simp add: track_objects_def Let_def move_camera_ready[OF assms(1)] move_dish_ready[OF r1])
qed

lemma clamps:
  "clamp_to ''camera_pan'' a = max 0 (min 180 a)"
  "clamp_to ''camera_tilt'' a = max 30 (min 150 a)"
  "clamp_to ''dish_azimuth'' a = max 0 (min 180 a)"
  "clamp_to ''dish_elevation'' a = max 0 (min 90 a)"
  by (simp_all add: clamp_to_def limits_def)

lemma ready_initialize: "ready True (snd (initialize True ServoController_init))"
  by (simp add: initialize_gpio ready_def axis_names_def initial_positions_def)

subsection \<open>Claims on tracking\<close>

text \<open>
  C3. Let the list of detections be \<open>pre @ p # post\<close> where every confidence in
  \<open>pre\<close> is strictly below that of \<open>p\<close> and none in \<open>post\<close> is above it, so
  that \<open>p\<close> is the first detection of maximum confidence (\<open>first_max_exists\<close>: every
  non-empty list splits so). Then \<open>max(detections, key=...)\<close> is \<open>p\<close>, and on an
  initialised controller with GPIO, for a normalised centre \<open>(x, y)\<close> of \<open>p\<close>,
  \<open>track_objects\<close> leaves camera-pan at \<open>x * 180\<close> and camera-tilt at
  \<open>30 + y * 120\<close>. With confidences 0.3, 0.9, 0.6 the second detection decides.
\<close>

theorem track_objects_follows_first_maximum:
  assumes "detections = pre @ p # post"
    and "\<forall>d\<in>set pre. get_confidence d < get_confidence p"
    and "\<forall>d\<in>set post. get_confidence d \<le> get_confidence p"
    and "coordinates p = Some (x, y)"
    and "0 \<le> x" and "x \<le> 1" and "0 \<le> y" and "y \<le> 1"
    and "ready gpio_available s"
  shows "py_max get_confidence detections = Inr p \<and>
         current_positions (track_objects gpio_available s detections) ''camera_pan'' = Some (x * 180) \<and>
         current_positions (track_objects gpio_available s detections) ''camera_tilt'' = Some (30 + y * 120)"
proof -
  have m: "py_max get_confidence detections = Inr p"
    unfolding assms(1) using assms(2,3) by (rule py_max_first)
  have a: "max 0 (min 180 (x * 180)) = x * 180" using assms(5,6) by simp
  have b: "max 30 (min 150 (30 + y * 120)) = 30 + y * 120" using assms(7,8) by simp
  show ?thesis
    using m a b by (simp add: track_ready[OF assms(9) m assms(4)] clamps)
qed

theorem track_objects_follows_first_maximum_witness:
  "py_max get_confidence
     [\<lparr>confidence = Some 0.3, coordinates = Some (0.1, 0.2)\<rparr>,
      \<lparr>confidence = Some 0.9, coordinates = Some (0.25, 0.75)\<rparr>,
      \<lparr>confidence = Some 0.6, coordinates = Some (0.9, 0.9)\<rparr>]
     = Inr \<lparr>confidence = Some 0.9, coordinates = Some (0.25, 0.75)\<rparr> \<and>
   current_positions
     (track_objects True (snd (initialize True ServoController_init))
        [\<lparr>confidence = Some 0.3, coordinates = Some (0.1, 0.2)\<rparr>,
         \<lparr>confidence = Some 0.9, coordinates = Some (0.25, 0.75)\<rparr>,
         \<lparr>confidence = Some 0.6, coordinates = Some (0.9, 0.9)\<rparr>]) ''camera_pan'' = Some 45 \<and>
   current_positions
     (track_objects True (snd (initialize True ServoController_init))
        [\<lparr>confidence = Some 0.3, coordinates = Some (0.1, 0.2)\<rparr>,
         \<lparr>confidence = Some 0.9, coordinates = Some (0.25, 0.75)\<rparr>,
         \<lparr>confidence = Some 0.6, coordinates = Some (0.9, 0.9)\<rparr>]) ''camera_tilt'' = Some 120"
proof -
  let ?d1 = "\<lparr>confidence = Some 0.3, coordinates = Some (0.1, 0.2)\<rparr>"
  let ?d2 = "\<lparr>confidence = Some 0.9, coordinates = Some (0.25, 0.75)\<rparr>"
  let ?d3 = "\<lparr>confidence = Some 0.6, coordinates = Some (0.9, 0.9)\<rparr>"
  have h1: "[?d1, ?d2, ?d3] = [?d1] @ ?d2 # [?d3]" by simp
  have h2: "\<forall>d\<in>set [?d1]. get_confidence d < get_confidence ?d2"
    by (simp add: get_confidence_def)
  have h3: "\<forall>d\<in>set [?d3]. get_confidence d \<le> get_confidence ?d2"
    by (simp add: get_confidence_def)
  have h4: "coordinates ?d2 = Some (0.25, 0.75)" by simp
  have r: "ready True (snd (initialize True ServoController_init))" by (rule ready_initialize)
  show ?thesis
    using track_objects_follows_first_maximum [OF h1 h2 h3 h4 _ _ _ _ r] by simp
qed

lemma py_fmod_180: "py_fmod 180 360 = 180"
  by (simp add: py_fmod_def)

lemma dish_parked_eq:
  "dish_parked = (snd (initialize True ServoController_init))
     \<lparr>current_positions := (current_positions (snd (initialize True ServoController_init)))
        (''dish_azimuth'' \<mapsto> 10, ''dish_elevation'' \<mapsto> 20)\<rparr>"
  by (simp add: dish_parked_def initialize_gpio move_servo_to_position_def limits_def duty_cycle_def)

lemma ready_dish_parked: "ready True dish_parked"
  unfolding dish_parked_eq using ready_update[OF ready_update[OF ready_initialize]] by simp

lemma dish_parked_positions:
  "current_positions dish_parked ''dish_azimuth'' = Some 10"
  "current_positions dish_parked ''dish_elevation'' = Some 20"
  by (simp_all add: dish_parked_eq)


text \<open>
  C2, as the code has it. Let \<open>p\<close> be the first detection of maximum confidence, with
  centre \<open>(x, y)\<close>, on an initialised controller with GPIO. The camera axes end at the
  clamped \<open>x * 180\<close> and \<open>30 + y * 120\<close>. If the confidence of \<open>p\<close> is above 0.8
  the dish is moved too: the azimuth \<open>x * 180 * 2\<close> handed to
  \<open>move_dish_to_coordinates\<close> is taken modulo 360 and scaled by 180/360 to the servo
  range, and that servo angle is clamped to [0, 180]; the elevation is the clamp of
  \<open>min(90, tilt - 30)\<close>. Otherwise both dish axes keep their stored angle.
\<close>

theorem track_objects_dish_routing:
  assumes "detections = pre @ p # post"
    and "\<forall>d\<in>set pre. get_confidence d < get_confidence p"
    and "\<forall>d\<in>set post. get_confidence d \<le> get_confidence p"
    and "coordinates p = Some (x, y)"
    and "ready gpio_available s"
  shows "(get_confidence p > 0.8 \<longrightarrow>
            current_positions (track_objects gpio_available s detections) ''camera_pan''
              = Some (max 0 (min 180 (x * 180))) \<and>
            current_positions (track_objects gpio_available s detections) ''camera_tilt''
              = Some (max 30 (min 150 (30 + y * 120))) \<and>
            current_positions (track_objects gpio_available s detections) ''dish_azimuth''
              = Some (max 0 (min 180 (py_fmod (x * 180 * 2) 360 * 180 / 360))) \<and>
            current_positions (track_objects gpio_available s detections) ''dish_elevation''
              = Some (max 0 (min 90 (min 90 (30 + y * 120 - 30))))) \<and>
         (\<not> get_confidence p > 0.8 \<longrightarrow>
            current_positions (track_objects gpio_available s detections) ''camera_pan''
              = Some (max 0 (min 180 (x * 180))) \<and>
            current_positions (track_objects gpio_available s detections) ''camera_tilt''
              = Some (max 30 (min 150 (30 + y * 120))) \<and>
            current_positions (track_objects gpio_available s detections) ''dish_azimuth''
              = current_positions s ''dish_azimuth'' \<and>
            current_positions (track_objects gpio_available s detections) ''dish_elevation''
              = current_positions s ''dish_elevation'')"
proof -
  have m: "py_max get_confidence detections = Inr p"
    unfolding assms(1) using assms(2,3) by (rule py_max_first)
  show ?thesis
    by (simp add: track_ready[OF assms(5) m assms(4)] clamps servo_azimuth_def)
qed

theorem track_objects_dish_routing_witness:
  "current_positions (track_objects True dish_parked
      [\<lparr>confidence = Some 0.85, coordinates = Some (0.5, 0.5)\<rparr>]) ''camera_pan'' = Some 90 \<and>
   current_positions (track_objects True dish_parked
      [\<lparr>confidence = Some 0.85, coordinates = Some (0.5, 0.5)\<rparr>]) ''camera_tilt'' = Some 90 \<and>
   current_positions (track_objects True dish_parked
      [\<lparr>confidence = Some 0.85, coordinates = Some (0.5, 0.5)\<rparr>]) ''dish_azimuth'' = Some 90 \<and>
   current_positions (track_objects True dish_parked
      [\<lparr>confidence = Some 0.85, coordinates = Some (0.5, 0.5)\<rparr>]) ''dish_elevation'' = Some 60 \<and>
   current_positions (track_objects True dish_parked
      [\<lparr>confidence = Some 0.75, coordinates = Some (0.5, 0.5)\<rparr>]) ''camera_pan'' = Some 90 \<and>
   current_positions (track_objects True dish_parked
      [\<lparr>confidence = Some 0.75, coordinates = Some (0.5, 0.5)\<rparr>]) ''camera_tilt'' = Some 90 \<and>
   current_positions (track_objects True dish_parked
      [\<lparr>confidence = Some 0.75, coordinates = Some (0.5, 0.5)\<rparr>]) ''dish_azimuth'' = Some 10 \<and>
   current_positions (track_objects True dish_parked
      [\<lparr>confidence = Some 0.75, coordinates = Some (0.5, 0.5)\<rparr>]) ''dish_elevation'' = Some 20"
proof -
  let ?hi = "\<lparr>confidence = Some 0.85, coordinates = Some (0.5, 0.5)\<rparr>"
  let ?lo = "\<lparr>confidence = Some 0.75, coordinates = Some (0.5, 0.5)\<rparr>"
  have e: "\<forall>d\<in>set ([]::detection list). get_confidence d < c"
          "\<forall>d\<in>set ([]::detection list). get_confidence d \<le> c" for c
    by simp_all
  have hi: "[?hi] = [] @ ?hi # []" and lo: "[?lo] = [] @ ?lo # []" by simp_all
  have ch: "coordinates ?hi = Some (0.5, 0.5)" and cl: "coordinates ?lo = Some (0.5, 0.5)"
    by simp_all
  have gh: "get_confidence ?hi > 0.8" and gl: "\<not> get_confidence ?lo > 0.8"
    by (simp_all add: get_confidence_def)
  note H = track_objects_dish_routing [OF hi e(1) e(2) ch ready_dish_parked]
  note L = track_objects_dish_routing [OF lo e(1) e(2) cl ready_dish_parked]
  show ?thesis
    using H L gh gl by (simp add: dish_parked_positions py_fmod_180)
qed


text \<open>
  The claim reads the dish azimuth as pan * 2, wrapped into [0, 360] and then clamped to
  [0, 180]. For confidence 0.85 and centre (0.5, 0.5) that derivation gives 180; the
  controller stores 90, because of the scaling by 180/360 in between.
\<close>

theorem track_objects_dish_azimuth_counterexample:
  "current_positions (track_objects True dish_parked
      [\<lparr>confidence = Some 0.85, coordinates = Some (0.5, 0.5)\<rparr>]) ''dish_azimuth'' = Some 90 \<and>
   max 0 (min 180 (py_fmod (0.5 * 180 * 2) 360)) = (180 :: real) \<and>
   current_positions (track_objects True dish_parked
      [\<lparr>confidence = Some 0.85, coordinates = Some (0.5, 0.5)\<rparr>]) ''dish_azimuth''
     \<noteq> Some (max 0 (min 180 (py_fmod (0.5 * 180 * 2) 360)))"
proof -
  let ?hi = "\<lparr>confidence = Some 0.85, coordinates = Some (0.5, 0.5)\<rparr>"
  have m: "py_max get_confidence [?hi] = Inr ?hi" by (simp add: py_max_def)
  have c: "coordinates ?hi = Some (0.5, 0.5)" by simp
  have st: "current_positions (track_objects True dish_parked [?hi]) ''dish_azimuth'' = Some 90"
    unfolding track_ready[OF ready_dish_parked m c]
    by (simp add: clamps servo_azimuth_def get_confidence_def py_fmod_180)
  have cl: "max 0 (min 180 (py_fmod (0.5 * 180 * 2) 360)) = (180 :: real)"
    by (simp add: py_fmod_180)
  show ?thesis using st cl by simp
qed

subsection \<open>The clamp range\<close>

lemma clamp_to_range:
  "limits n = Some (lo, hi) \<Longrightarrow> lo \<le> clamp_to n a \<and> clamp_to n a \<le> hi"
  using limits_cases[of n lo hi] by (auto simp: clamp_to_def)

lemma within_limits_store:
  assumes "within_limits s" and "limits n \<noteq> None"
  shows "within_limits (s\<lparr>current_positions := (current_positions s)(n \<mapsto> clamp_to n a)\<rparr>)"
  using assms clamp_to_range[of n _ _ a]
  by (auto simp: within_limits_def list_all_iff split: option.splits)

lemma real_move_cls:
  "cls s = ServoController \<Longrightarrow> cls (move_servo_to_position g s n a) = ServoController"
  by (cases "can_store g s n") (simp_all add: move_real_store move_real_noop)

lemma real_move_within_limits:
  assumes "cls s = ServoController" and "within_limits s"
  shows "within_limits (move_servo_to_position g s n a)"
proof (cases "can_store g s n")
  case True
  then show ?thesis
    using assms by (simp add: move_real_store within_limits_store can_store_def)
next
  case False
  then show ?thesis using assms by (simp add: move_real_noop)
qed

lemma real_fold_cls:
  "cls s = ServoController \<Longrightarrow>
   cls (fold (\<lambda>i st. move_servo_to_position g st n (f i)) xs s) = ServoController"
  by (induction xs arbitrary: s) (simp_all add: real_move_cls)

lemma real_fold_within_limits:
  "cls s = ServoController \<Longrightarrow> within_limits s \<Longrightarrow>
   within_limits (fold (\<lambda>i st. move_servo_to_position g st n (f i)) xs s)"
  by (induction xs arbitrary: s) (simp_all add: real_move_within_limits real_move_cls)

theorem real_move_servo_within_limits:
  assumes "cls s = ServoController" and "within_limits s"
    and "move_servo g s n a smooth = Inr (ok, s')"
  shows "within_limits s' \<and> cls s' = ServoController"
  using assms
  by (auto simp: move_servo_def self_servo_pins_def smooth_move_def Let_def
      real_move_within_limits real_move_cls real_fold_within_limits real_fold_cls
      split: if_splits option.splits)

lemma within_limits_init: "within_limits ServoController_init"
  by (simp add: within_limits_def ServoController_init_def axis_names_def initial_positions_def limits_def)


text \<open>
  C1. The stored angle stays inside the axis range for the class \<open>ServoController\<close>
  (\<open>real_move_servo_within_limits\<close> above). It does not for \<open>MockServoController\<close>:
  the overriding \<open>_move_servo_to_position\<close> stores the requested angle as it is, so a
  request of 500 on camera-pan, whose range is [0, 180], leaves 500 stored. The public
  \<open>move_servo\<close> of a mock object does not get that far: it raises \<open>AttributeError\<close>
  on \<open>self.servo_pins\<close>.
\<close>

theorem mock_move_stores_unclamped:
  "current_positions
     (move_servo_to_position True (snd (initialize True MockServoController_init)) ''camera_pan'' 500)
     ''camera_pan'' = Some 500 \<and>
   limits ''camera_pan'' = Some (0, 180) \<and>
   \<not> within_limits
     (move_servo_to_position True (snd (initialize True MockServoController_init)) ''camera_pan'' 500) \<and>
   move_servo True (snd (initialize True MockServoController_init)) ''camera_pan'' 500 True
     = Inl AttributeError"
  by (simp add: move_servo_to_position_def initialize_def MockServoController_init_def
      limits_def within_limits_def axis_names_def move_servo_def self_servo_pins_def)

theorem mock_move_stores_unclamped_witness:
  "current_positions
     (move_servo_to_position True (snd (initialize True MockServoController_init)) ''camera_pan'' 500)
     ''camera_pan'' = Some 500 \<and>
   (180 :: real) < 500"
  using mock_move_stores_unclamped by simp

section \<open>Properties of the object detector\<close>

subsection \<open>The detection threshold\<close>

lemma threshold_valid_init: "threshold_valid AsteroidDetector_init"
  by (simp add: threshold_valid_def AsteroidDetector_init_def)

lemma threshold_valid_set:
  "threshold_valid d \<Longrightarrow> set_detection_threshold t d = Inr d' \<Longrightarrow> threshold_valid d'"
  by (auto simp: threshold_valid_def set_detection_threshold_def split: if_splits)


text \<open>
  C4, as the code has it. \<open>set_detection_threshold(t)\<close> returns normally for every
  \<open>t\<close>: for \<open>t\<close> in [0, 1] the stored threshold becomes \<open>t\<close>, for every other
  \<open>t\<close> the detector is left as it was and no error is raised or returned.
\<close>

theorem set_detection_threshold_behaviour:
  "(0 \<le> t \<and> t \<le> 1 \<longrightarrow>
      set_detection_threshold t d = Inr (d\<lparr>detection_threshold := t\<rparr>)) \<and>
   (\<not> (0 \<le> t \<and> t \<le> 1) \<longrightarrow> set_detection_threshold t d = Inr d)"
  by (simp add: set_detection_threshold_def)

theorem set_detection_threshold_behaviour_witness:
  "set_detection_threshold 0.7 AsteroidDetector_init
     = Inr \<lparr>model_loaded = False, detection_threshold = 0.7\<rparr> \<and>
   set_detection_threshold 1.5 AsteroidDetector_init = Inr AsteroidDetector_init \<and>
   set_detection_threshold (- 0.1) AsteroidDetector_init = Inr AsteroidDetector_init"
  using set_detection_threshold_behaviour [of "0.7" AsteroidDetector_init]
    set_detection_threshold_behaviour [of "1.5" AsteroidDetector_init]
    set_detection_threshold_behaviour [of "- 0.1" AsteroidDetector_init]
  by (simp add: AsteroidDetector_init_def)


text \<open>
  The claim has the call fail for a threshold outside [0, 1]. With 1.5 the method returns
  normally; the detector is unchanged.
\<close>

theorem set_detection_threshold_counterexample:
  "\<not> isl (set_detection_threshold 1.5 AsteroidDetector_init) \<and>
   set_detection_threshold 1.5 AsteroidDetector_init = Inr AsteroidDetector_init"
  by (simp add: set_detection_threshold_def)


subsection \<open>The default heuristic\<close>

text \<open>
  C6. With the brightness \<open>np.mean(roi)\<close> (0 for an empty region), the area and the
  aspect ratio of the object, \<open>heuristic_classification\<close> returns: meteor at 0.8 when
  brightness > 200, area > 100 and aspect ratio > 2; else asteroid at 0.7 when brightness
  > 200 and area > 500; else meteor at 0.6 when brightness > 200 and area > 100; else
  meteor at 0.5 when brightness > 150; else non\_meteor at 0.9. An object of area 120 and
  aspect ratio 2.5 over a region of mean 220 is a meteor at 0.8.
\<close>

theorem heuristic_classification_table:
  "(roi_mean roi > 200 \<and> area obj > 100 \<and> aspect_ratio obj > 2 \<longrightarrow>
      heuristic_classification obj roi = (''meteor'', 0.8)) \<and>
   (roi_mean roi > 200 \<and> area obj > 100 \<and> \<not> aspect_ratio obj > 2 \<and> area obj > 500 \<longrightarrow>
      heuristic_classification obj roi = (''asteroid'', 0.7)) \<and>
   (roi_mean roi > 200 \<and> area obj > 100 \<and> \<not> aspect_ratio obj > 2 \<and> \<not> area obj > 500 \<longrightarrow>
      heuristic_classification obj roi = (''meteor'', 0.6)) \<and>
   (\<not> (roi_mean roi > 200 \<and> area obj > 100) \<and> roi_mean roi > 150 \<longrightarrow>
      heuristic_classification obj roi = (''meteor'', 0.5)) \<and>
   (\<not> (roi_mean roi > 200 \<and> area obj > 100) \<and> \<not> roi_mean roi > 150 \<longrightarrow>
      heuristic_classification obj roi = (''non_meteor'', 0.9))"
  by (simp add: heuristic_classification_def Let_def)

theorem heuristic_classification_table_witness:
  "roi_mean [[220, 220], [230, 210]] = 220 \<and>
   heuristic_classification
     \<lparr>contour = (), bbox = (4, 6, 25, 10), area = 120, aspect_ratio = 2.5, center = (16, 11)\<rparr>
     [[220, 220], [230, 210]] = (''meteor'', 0.8)"
proof -
  have m: "roi_mean [[220, 220], [230, 210]] = 220"
    by (simp add: roi_mean_def roi_size_def)
  show ?thesis
    using m heuristic_classification_table
      [of "[[220, 220], [230, 210]]"
          "\<lparr>contour = (), bbox = (4, 6, 25, 10), area = 120, aspect_ratio = 2.5, center = (16, 11)\<rparr>"]
    by simp
qed

subsection \<open>The loops of a pass\<close>


lemma detect_loop_member:
  "obj \<in> set (detect_loop cv cs acc) \<Longrightarrow>
   obj \<in> set acc \<or>
   (contour obj \<in> set cs \<and> contourArea cv (contour obj) = Inr (area obj) \<and>
    boundingRect cv (contour obj) = Inr (bbox obj) \<and> 50 < area obj \<and> area obj < 5000)"
proof (induction cs arbitrary: acc)
  case Nil
  then show ?case by simp
next
  case (Cons c cs)
  show ?case
  proof (cases "contourArea cv c")
    case (Inl e)
    then show ?thesis using Cons.prems by simp
  next
    case (Inr a)
    show ?thesis
    proof (cases "50 < a \<and> a < 5000")
      case False
      then show ?thesis using Cons.IH[of acc] Cons.prems Inr by auto
    next
      case True
      show ?thesis
      proof (cases "boundingRect cv c")
        case (Inl e)
        then show ?thesis using Cons.prems Inr True by simp
      next
        case r: (Inr b)
        obtain x y w h where b: "b = (x, y, w, h)" by (cases b) auto
        let ?o = "\<lparr>contour = c, bbox = (x, y, w, h), area = a,
               aspect_ratio = (if h > 0 then real w / real h else 0),
               center = (x + w div 2, y + h div 2)\<rparr>"
        have "obj \<in> set (detect_loop cv cs (acc @ [?o]))"
          using Cons.prems True Inr r b by simp
        from Cons.IH[OF this] show ?thesis using True Inr r b by auto
      qed
    qed
  qed
qed


lemma analyze_loop_eq:
  "analyze_loop scorer d img objs acc =
     acc @ filter (\<lambda>cl. c_confidence cl > detection_threshold d)
                  (map (\<lambda>obj. classify_object scorer obj img) objs)"
  by (induction objs arbitrary: acc) (simp_all add: Let_def)

lemma classify_object_keeps:
  "c_area (classify_object scorer obj img) = area obj"
  "c_bbox (classify_object scorer obj img) = bbox obj"
  "c_coordinates (classify_object scorer obj img) = center obj"
  by (simp_all add: classify_object_def Let_def split: sum.splits prod.splits)



lemma roi_small:
  "roi_of [[220, 220], [230, 210]] (0, 0, 25, 10) = [[220, 220], [230, 210]]"
  "roi_of [[220, 220], [230, 210]] (0, 0, 10, 10) = [[220, 220], [230, 210]]"
  "roi_mean [[220, 220], [230, 210]] = 220"
  by (simp_all add: roi_of_def roi_mean_def roi_size_def)




text \<open>
  C7. Every classification that \<open>analyze_frame\<close> returns has an area strictly between
  50 and 5000, and it is the area OpenCV reports for one of the contours found in the
  preprocessed frame, with that contour's bounding rectangle: a contour of area at most 50
  or at least 5000 never reaches the output. This holds for every scoring method, every
  threshold and every behaviour of OpenCV, raising or not.
\<close>

theorem analyze_frame_area_window:
  assumes "analyze_frame scorer cv d frame = Inr detections"
    and "cl \<in> set detections"
  shows "50 < c_area cl \<and> c_area cl < 5000 \<and>
         (\<exists>img contours c. preprocess cv frame = Inr img \<and> find_contours cv img = Inr contours \<and>
            c \<in> set contours \<and> contourArea cv c = Inr (c_area cl) \<and>
            boundingRect cv c = Inr (c_bbox cl))"
proof -
  have ne: "detections \<noteq> []" using assms(2) by auto
  then obtain img where p: "preprocess cv frame = Inr img"
    and ds: "detections = analyze_loop scorer d img (detect_moving_objects cv img) []"
    using assms(1)
    by (auto simp: analyze_frame_def analyze_frame_body_def split: if_splits sum.splits)
  from assms(2) obtain obj where o: "obj \<in> set (detect_moving_objects cv img)"
    and c: "cl = classify_object scorer obj img"
    unfolding ds analyze_loop_eq by auto
  from o obtain contours where f: "find_contours cv img = Inr contours"
    and m: "obj \<in> set (detect_loop cv contours [])"
    by (cases "find_contours cv img") (auto simp: detect_moving_objects_def)
  from detect_loop_member[OF m]
  have k: "contour obj \<in> set contours" "contourArea cv (contour obj) = Inr (area obj)"
    "boundingRect cv (contour obj) = Inr (bbox obj)" "50 < area obj" "area obj < 5000"
    by auto
  show ?thesis using p f k by (auto simp: c classify_object_keeps)
qed

theorem analyze_frame_area_window_witness:
  "analyze_frame default_scorer
     (synthetic_opencv [(50, (0, 0, 25, 10)), (120, (0, 0, 25, 10)), (5000, (0, 0, 25, 10)),
                        (30, (0, 0, 25, 10)), (7000, (0, 0, 25, 10))])
     (load_model AsteroidDetector_init) [[220, 220], [230, 210]]
   = Inr [\<lparr>c_type = ''meteor'', c_confidence = 0.8, c_coordinates = (12, 5),
           c_bbox = (0, 0, 25, 10), c_area = 120, c_properties = Some (2.5, 220)\<rparr>] \<and>
   50 < c_area \<lparr>c_type = ''meteor'', c_confidence = 0.8, c_coordinates = (12, 5),
           c_bbox = (0, 0, 25, 10), c_area = 120, c_properties = Some (2.5, 220)\<rparr> \<and>
   c_area \<lparr>c_type = ''meteor'', c_confidence = 0.8, c_coordinates = (12, 5),
           c_bbox = (0, 0, 25, 10), c_area = 120, c_properties = Some (2.5, 220)\<rparr> < 5000"
proof -
  let ?cl = "\<lparr>c_type = ''meteor'', c_confidence = 0.8, c_coordinates = (12, 5),
           c_bbox = (0, 0, 25, 10), c_area = 120, c_properties = Some (2.5, 220)\<rparr>"
  have run: "analyze_frame default_scorer
     (synthetic_opencv [(50, (0, 0, 25, 10)), (120, (0, 0, 25, 10)), (5000, (0, 0, 25, 10)),
                        (30, (0, 0, 25, 10)), (7000, (0, 0, 25, 10))])
     (load_model AsteroidDetector_init) [[220, 220], [230, 210]] = Inr [?cl]"
    by (simp add: analyze_frame_def analyze_frame_body_def synthetic_opencv_def load_model_def
        AsteroidDetector_init_def detect_moving_objects_def classify_object_def default_scorer_def
        heuristic_classification_def roi_small Let_def)
  have mem: "?cl \<in> set [?cl]" by simp
  from analyze_frame_area_window [OF run mem] run show ?thesis by blast
qed




end
